theory Spec2Isabelle
  imports Main "HOL-Library.Word"
begin

section \<open>Values of the Python runtime\<close>

text \<open>
  The two scripts of the repository (\<^verbatim>\<open>sdk/python/decapod_shim.py\<close> and
  \<^verbatim>\<open>examples/python_validate_demo.py\<close>) shell out to the external tool
  \<^verbatim>\<open>decapod\<close> and wrap what it prints. They compute with Python strings, byte strings
  and the values that \<^verbatim>\<open>json\<close> reads and writes.

  \<^item> \<^verbatim>\<open>bytes\<close> is a list of 8-bit characters (\<open>string\<close>), so \<^verbatim>\<open>b"boom"\<close> is \<open>''boom''\<close>;
  \<^item> \<^verbatim>\<open>str\<close> is a list of Unicode code points (\<open>nat list\<close>); \<open>lit\<close> turns a literal of
    the source into such a list;
  \<^item> a \<^verbatim>\<open>dict\<close> with string keys is an association list in insertion order;
  \<^item> Python's \<^verbatim>\<open>float\<close> is not represented: where \<^verbatim>\<open>json.loads\<close> would
    build one, the model stops with \<open>FloatNotModelled\<close>;
  \<^item> the limits that the interpreter puts on resources are not represented either: the
    recursion limit, the limit on the number of digits in a conversion between \<^verbatim>\<open>int\<close>
    and \<^verbatim>\<open>str\<close> (4300 by default since Python 3.11), memory.

  The functions of the standard library that the scripts call (\<^verbatim>\<open>json\<close>, \<^verbatim>\<open>uuid\<close>,
  \<^verbatim>\<open>bytes.decode\<close>, \<^verbatim>\<open>str.strip\<close>) are modelled after CPython 3.11.
\<close>

type_synonym bytes = string
type_synonym pystr = "nat list"

definition lit :: "string \<Rightarrow> pystr" where
  "lit s = map of_char s"

datatype pyval =
    PNone
  | PBool bool
  | PInt int
  | PStr pystr
  | PList "pyval list"
  | PDict "(pystr \<times> pyval) list"

datatype oserror = FileNotFoundError | PermissionError | OtherOSError

datatype pyexc =
    OSError oserror
  | RuntimeError pystr
  | UnicodeDecodeError
  | UnicodeEncodeError
  | JSONDecodeError
  | AttributeError
  | KeyError
  | TypeError
  | RecursionError
  | FloatNotModelled

text \<open>\<^verbatim>\<open>bool(x)\<close>: the truth value of a Python object.\<close>

fun truthy :: "pyval \<Rightarrow> bool" where
  "truthy PNone = False"
| "truthy (PBool b) = b"
| "truthy (PInt i) = (i \<noteq> 0)"
| "truthy (PStr s) = (s \<noteq> [])"
| "truthy (PList xs) = (xs \<noteq> [])"
| "truthy (PDict kvs) = (kvs \<noteq> [])"

text \<open>\<^verbatim>\<open>d.get(key, default)\<close> on a dict.\<close>

definition dict_get :: "(pystr \<times> pyval) list \<Rightarrow> pystr \<Rightarrow> pyval \<Rightarrow> pyval" where
  "dict_get d k dflt = (case map_of d k of None \<Rightarrow> dflt | Some v \<Rightarrow> v)"

text \<open>
  \<^verbatim>\<open>x.get(key, default)\<close> on any value that \<^verbatim>\<open>json.loads\<close> can return: only a dict has
  the method, every other value raises \<^verbatim>\<open>AttributeError\<close>.
\<close>

fun py_get :: "pyval \<Rightarrow> pystr \<Rightarrow> pyval \<Rightarrow> pyexc + pyval" where
  "py_get (PDict d) k dflt = Inr (dict_get d k dflt)"
| "py_get _ k dflt = Inl AttributeError"

text \<open>
  \<^verbatim>\<open>x[key]\<close> with a string key: a dict without the key raises \<^verbatim>\<open>KeyError\<close>, and
  no other value that occurs here can be indexed by a string.
\<close>

fun py_subscript :: "pyval \<Rightarrow> pystr \<Rightarrow> pyexc + pyval" where
  "py_subscript (PDict d) k = (case map_of d k of None \<Rightarrow> Inl KeyError | Some v \<Rightarrow> Inr v)"
| "py_subscript _ k = Inl TypeError"

section \<open>Decoding and trimming text\<close>

text \<open>
  \<^verbatim>\<open>bytes.decode("utf-8", errors=...)\<close> as CPython's decoder does it. \<open>utf8_step b bs\<close>
  looks at the sequence that starts with byte \<open>b\<close> (followed by \<open>bs\<close>) and returns the
  code point, or \<open>None\<close> for an ill-formed sequence, together with the number of bytes of
  \<open>bs\<close> that belong to it: an ill-formed sequence ends before the first byte that cannot
  continue it, and a truncated sequence at the end of the input is one error.
\<close>

definition is_cont :: "nat \<Rightarrow> bool" where
  "is_cont b = (128 \<le> b \<and> b < 192)"

fun utf8_step :: "nat \<Rightarrow> nat list \<Rightarrow> nat option \<times> nat" where
  "utf8_step b bs =
    (if b < 128 then (Some b, 0)
     else if b < 194 then (None, 0)
     else if b < 224 then
       (case bs of
          [] \<Rightarrow> (None, 0)
        | b2 # _ \<Rightarrow>
            if is_cont b2 then (Some ((b - 192) * 64 + (b2 - 128)), 1) else (None, 0))
     else if b < 240 then
       (case bs of
          [] \<Rightarrow> (None, 0)
        | b2 # bs2 \<Rightarrow>
            if is_cont b2 \<and> (if b2 < 160 then b \<noteq> 224 else b \<noteq> 237) then
              (case bs2 of
                 [] \<Rightarrow> (None, 1)
               | b3 # _ \<Rightarrow>
                   if is_cont b3
                   then (Some ((b - 224) * 4096 + (b2 - 128) * 64 + (b3 - 128)), 2)
                   else (None, 1))
            else (None, 0))
     else if b < 245 then
       (case bs of
          [] \<Rightarrow> (None, 0)
        | b2 # bs2 \<Rightarrow>
            if is_cont b2 \<and> (if b2 < 144 then b \<noteq> 240 else b \<noteq> 244) then
              (case bs2 of
                 [] \<Rightarrow> (None, 1)
               | b3 # bs3 \<Rightarrow>
                   if is_cont b3 then
                     (case bs3 of
                        [] \<Rightarrow> (None, 2)
                      | b4 # _ \<Rightarrow>
                          if is_cont b4
                          then (Some ((b - 240) * 262144 + (b2 - 128) * 4096
                                      + (b3 - 128) * 64 + (b4 - 128)), 3)
                          else (None, 2))
                   else (None, 1))
            else (None, 0))
     else (None, 0))"

text \<open>
  With \<^verbatim>\<open>errors="replace"\<close> every ill-formed sequence becomes U+FFFD (65533); with
  the default \<^verbatim>\<open>errors="strict"\<close> the first one raises \<^verbatim>\<open>UnicodeDecodeError\<close>.
\<close>

fun utf8_decode :: "bool \<Rightarrow> nat list \<Rightarrow> pyexc + pystr" where
  "utf8_decode replace [] = Inr []"
| "utf8_decode replace (b # bs) =
    (case utf8_step b bs of
       (Some c, n) \<Rightarrow>
         (case utf8_decode replace (drop n bs) of
            Inl e \<Rightarrow> Inl e
          | Inr cs \<Rightarrow> Inr (c # cs))
     | (None, n) \<Rightarrow>
         if replace
         then (case utf8_decode replace (drop n bs) of
                 Inl e \<Rightarrow> Inl e
               | Inr cs \<Rightarrow> Inr (65533 # cs))
         else Inl UnicodeDecodeError)"

definition decode_strict :: "bytes \<Rightarrow> pyexc + pystr" where
  "decode_strict b = utf8_decode False (map of_char b)"

text \<open>
  \<^verbatim>\<open>b.decode("utf-8", errors="replace")\<close> cannot raise; \<open>decode_replace\<close> is the text
  it returns (\<open>decode_replace_total\<close> below shows that the \<open>Inl\<close> case never occurs).
\<close>

definition decode_replace :: "bytes \<Rightarrow> pystr" where
  "decode_replace b = (case utf8_decode True (map of_char b) of Inr s \<Rightarrow> s | Inl _ \<Rightarrow> [])"

text \<open>
  \<^verbatim>\<open>str.strip()\<close> removes the leading and trailing characters for which
  \<^verbatim>\<open>str.isspace\<close> holds.
\<close>

definition isspace :: "nat \<Rightarrow> bool" where
  "isspace c =
    ((9 \<le> c \<and> c \<le> 13) \<or> (28 \<le> c \<and> c \<le> 32) \<or> c = 133 \<or> c = 160 \<or> c = 5760
     \<or> (8192 \<le> c \<and> c \<le> 8202) \<or> c = 8232 \<or> c = 8233 \<or> c = 8239 \<or> c = 8287
     \<or> c = 12288)"

definition strip :: "pystr \<Rightarrow> pystr" where
  "strip s = rev (dropWhile isspace (rev (dropWhile isspace s)))"

section \<open>The external process\<close>

text \<open>
  \<^verbatim>\<open>subprocess.run(argv, input=..., stdout=PIPE, stderr=PIPE, check=False)\<close> either fails to
  start the program (an \<^verbatim>\<open>OSError\<close> such as \<^verbatim>\<open>FileNotFoundError\<close>) or waits for
  the child and returns its exit code and the two captured streams. What the child does is
  not part of the repository: it is the field \<open>spawn\<close> of the world the scripts run in.
  The other fields are the 16 bytes that \<^verbatim>\<open>os.urandom\<close> hands to \<^verbatim>\<open>uuid.uuid4()\<close>,
  read big-endian, and the files that \<^verbatim>\<open>open\<close> can read.
\<close>

datatype completed = Completed (returncode: int) (stdout: bytes) (stderr: bytes)

datatype event = Spawn "string list" "bytes option" | Open pystr | Print pystr

record world =
  spawn :: "string list \<Rightarrow> bytes option \<Rightarrow> oserror + completed"
  urandom16 :: "128 word"
  files :: "pystr \<Rightarrow> oserror + bytes"

text \<open>
  A call returns a value or raises, and leaves a trace of what it did to the world.
\<close>

type_synonym 'a io = "(pyexc + 'a) \<times> event list"

section \<open>The validate helper\<close>

text \<open>\<^verbatim>\<open>run_validate\<close>, lines 35 to 44 of \<^verbatim>\<open>decapod_shim.py\<close>.\<close>

definition run_validate :: "world \<Rightarrow> pyval io" where
  "run_validate w =
    (let argv = [''decapod'', ''validate''] in
     (case spawn w argv None of
        Inl e \<Rightarrow> Inl (OSError e)
      | Inr proc \<Rightarrow>
          Inr (PDict
            [(lit ''envelope_version'', PStr (lit ''1.0.0'')),
             (lit ''cmd'', PStr (lit ''validate'')),
             (lit ''status'', PStr (if returncode proc = 0 then lit ''ok'' else lit ''error'')),
             (lit ''exit_code'', PInt (returncode proc)),
             (lit ''stdout'', PStr (decode_replace (stdout proc))),
             (lit ''stderr'', PStr (decode_replace (stderr proc)))]),
      [Spawn argv None]))"

section \<open>Writing JSON\<close>

text \<open>
  \<^verbatim>\<open>json.dumps(obj, indent=...)\<close> with its other defaults (\<^verbatim>\<open>ensure_ascii=True\<close>): the
  encoder of CPython's \<^verbatim>\<open>json/encoder.py\<close>. Code points are written as numbers:
  34 is the double quote, 92 the backslash, 117 the letter u, 44 the comma, 58 the colon,
  32 the space, 10 the line feed, 45 the minus sign, 91 and 93 the square brackets, 123 and
  125 the braces.
\<close>

definition hexdigit :: "nat \<Rightarrow> nat" where
  "hexdigit n = (if n < 10 then 48 + n else 87 + n)"

text \<open>\<^verbatim>\<open>'{0:04x}'.format(n)\<close> for \<open>n < 65536\<close>.\<close>

definition hex4 :: "nat \<Rightarrow> pystr" where
  "hex4 n = [hexdigit (n div 4096 mod 16), hexdigit (n div 256 mod 16),
             hexdigit (n div 16 mod 16), hexdigit (n mod 16)]"

text \<open>
  The replacement that \<^verbatim>\<open>py_encode_basestring_ascii\<close> makes for one character: the short
  escapes of \<^verbatim>\<open>ESCAPE_DCT\<close>, the printable ASCII characters as they are, every other
  character of the basic plane as \<^verbatim>\<open>\uXXXX\<close> and the others as a surrogate pair.
\<close>

definition escape_char :: "nat \<Rightarrow> pystr" where
  "escape_char c =
    (if c = 92 then [92, 92]
     else if c = 34 then [92, 34]
     else if c = 8 then [92, 98]
     else if c = 12 then [92, 102]
     else if c = 10 then [92, 110]
     else if c = 13 then [92, 114]
     else if c = 9 then [92, 116]
     else if 32 \<le> c \<and> c \<le> 126 then [c]
     else if c < 65536 then [92, 117] @ hex4 c
     else (let n = c - 65536 in
           [92, 117] @ hex4 (55296 + (n div 1024) mod 1024)
           @ [92, 117] @ hex4 (56320 + n mod 1024)))"

definition encode_basestring_ascii :: "pystr \<Rightarrow> pystr" where
  "encode_basestring_ascii s = [34] @ concat (map escape_char s) @ [34]"

text \<open>\<^verbatim>\<open>int.__repr__\<close>: the decimal digits of an integer.\<close>

function digits :: "nat \<Rightarrow> pystr" where
  "digits n = (if n < 10 then [48 + n] else digits (n div 10) @ [48 + n mod 10])"
  by pat_completeness auto
termination
  by (relation "measure (\<lambda>n. n)") auto

declare digits.simps [simp del]

definition int_repr :: "int \<Rightarrow> pystr" where
  "int_repr i = (if i < 0 then 45 # digits (nat (- i)) else digits (nat i))"

text \<open>
  The line break and indentation that starts every item at nesting level \<open>lvl\<close> when an
  indent is given, and the separator between two items (\<^verbatim>\<open>', '\<close> without an indent,
  \<^verbatim>\<open>','\<close> and a fresh line with one).
\<close>

definition newline_indent :: "nat option \<Rightarrow> nat \<Rightarrow> pystr" where
  "newline_indent indent lvl =
    (case indent of None \<Rightarrow> [] | Some k \<Rightarrow> 10 # replicate (k * lvl) 32)"

definition item_separator :: "nat option \<Rightarrow> nat \<Rightarrow> pystr" where
  "item_separator indent lvl =
    (case indent of None \<Rightarrow> [44, 32] | Some k \<Rightarrow> 44 # newline_indent indent lvl)"

fun iterencode :: "nat option \<Rightarrow> nat \<Rightarrow> pyval \<Rightarrow> pystr"
  and iterencode_list :: "nat option \<Rightarrow> nat \<Rightarrow> pyval list \<Rightarrow> pystr"
  and iterencode_dict :: "nat option \<Rightarrow> nat \<Rightarrow> (pystr \<times> pyval) list \<Rightarrow> pystr"
where
  "iterencode indent lvl PNone = lit ''null''"
| "iterencode indent lvl (PBool b) = (if b then lit ''true'' else lit ''false'')"
| "iterencode indent lvl (PInt i) = int_repr i"
| "iterencode indent lvl (PStr s) = encode_basestring_ascii s"
| "iterencode indent lvl (PList xs) =
    (if xs = [] then lit ''[]''
     else [91] @ newline_indent indent (Suc lvl) @ iterencode_list indent (Suc lvl) xs
          @ newline_indent indent lvl @ [93])"
| "iterencode indent lvl (PDict kvs) =
    (if kvs = [] then lit ''{}''
     else [123] @ newline_indent indent (Suc lvl) @ iterencode_dict indent (Suc lvl) kvs
          @ newline_indent indent lvl @ [125])"
| "iterencode_list indent lvl [] = []"
| "iterencode_list indent lvl (x # xs) =
    iterencode indent lvl x
    @ (if xs = [] then [] else item_separator indent lvl @ iterencode_list indent lvl xs)"
| "iterencode_dict indent lvl [] = []"
| "iterencode_dict indent lvl ((k, v) # kvs) =
    encode_basestring_ascii k @ [58, 32] @ iterencode indent lvl v
    @ (if kvs = [] then [] else item_separator indent lvl @ iterencode_dict indent lvl kvs)"

definition json_dumps :: "nat option \<Rightarrow> pyval \<Rightarrow> pystr" where
  "json_dumps indent obj = iterencode indent 0 obj"

section \<open>Reading JSON\<close>

text \<open>
  \<^verbatim>\<open>json.loads(s)\<close> for a \<^verbatim>\<open>str\<close>, with its defaults: the scanner and decoder of
  CPython's \<^verbatim>\<open>json/scanner.py\<close> and \<^verbatim>\<open>json/decoder.py\<close>, with the digits and
  hexadecimal digits of the C accelerator (ASCII only). Every function takes the text
  that is left and returns the value it read and the text after it. Every kind of
  malformed text raises the one exception \<^verbatim>\<open>JSONDecodeError\<close>.
\<close>

definition is_ws :: "nat \<Rightarrow> bool" where
  "is_ws c = (c = 32 \<or> c = 9 \<or> c = 10 \<or> c = 13)"

definition skip_ws :: "pystr \<Rightarrow> pystr" where
  "skip_ws s = dropWhile is_ws s"

definition is_digit :: "nat \<Rightarrow> bool" where
  "is_digit c = (48 \<le> c \<and> c \<le> 57)"

definition hexval :: "nat \<Rightarrow> nat option" where
  "hexval c =
    (if 48 \<le> c \<and> c \<le> 57 then Some (c - 48)
     else if 97 \<le> c \<and> c \<le> 102 then Some (c - 87)
     else if 65 \<le> c \<and> c \<le> 70 then Some (c - 55)
     else None)"

text \<open>The four hexadecimal digits after \<^verbatim>\<open>\u\<close>.\<close>

fun decode_uXXXX :: "pystr \<Rightarrow> nat option" where
  "decode_uXXXX (a # b # c # d # _) =
    (case (hexval a, hexval b, hexval c, hexval d) of
       (Some x, Some y, Some z, Some w) \<Rightarrow> Some (x * 4096 + y * 256 + z * 16 + w)
     | _ \<Rightarrow> None)"
| "decode_uXXXX _ = None"

text \<open>The table \<^verbatim>\<open>BACKSLASH\<close> of the one-letter escapes.\<close>

definition backslash :: "nat \<Rightarrow> nat option" where
  "backslash e =
    (if e = 34 then Some 34
     else if e = 92 then Some 92
     else if e = 47 then Some 47
     else if e = 98 then Some 8
     else if e = 102 then Some 12
     else if e = 110 then Some 10
     else if e = 114 then Some 13
     else if e = 116 then Some 9
     else None)"

definition add_char :: "nat \<Rightarrow> pyexc + (pystr \<times> pystr) \<Rightarrow> pyexc + (pystr \<times> pystr)" where
  "add_char c r = (case r of Inl e \<Rightarrow> Inl e | Inr (s, rest) \<Rightarrow> Inr (c # s, rest))"

text \<open>
  \<^verbatim>\<open>scanstring\<close> (strict): the text after the opening quote, up to the closing one.
  A high surrogate escape directly followed by a low surrogate escape is one character.
\<close>

fun scanstring :: "pystr \<Rightarrow> pyexc + (pystr \<times> pystr)" where
  "scanstring [] = Inl JSONDecodeError"
| "scanstring (c # cs) =
    (if c = 34 then Inr ([], cs)
     else if c = 92 then
       (case cs of
          [] \<Rightarrow> Inl JSONDecodeError
        | e # es \<Rightarrow>
            if e = 117 then
              (case decode_uXXXX es of
                 None \<Rightarrow> Inl JSONDecodeError
               | Some uni \<Rightarrow>
                   if 55296 \<le> uni \<and> uni \<le> 56319 \<and> take 2 (drop 4 es) = [92, 117] then
                     (case decode_uXXXX (drop 6 es) of
                        None \<Rightarrow> Inl JSONDecodeError
                      | Some uni2 \<Rightarrow>
                          if 56320 \<le> uni2 \<and> uni2 \<le> 57343
                          then add_char (65536 + (uni - 55296) * 1024 + (uni2 - 56320))
                                 (scanstring (drop 10 es))
                          else add_char uni (scanstring (drop 4 es)))
                   else add_char uni (scanstring (drop 4 es)))
            else
              (case backslash e of
                 None \<Rightarrow> Inl JSONDecodeError
               | Some ch \<Rightarrow> add_char ch (scanstring es)))
     else if c < 32 then Inl JSONDecodeError
     else add_char c (scanstring cs))"

text \<open>The value of a run of decimal digits, most significant first.\<close>

definition digits_val :: "pystr \<Rightarrow> nat" where
  "digits_val ds = foldl (\<lambda>acc d. acc * 10 + (d - 48)) 0 ds"

text \<open>
  \<^verbatim>\<open>NUMBER_RE\<close>: an optional minus sign and an integer part (\<^verbatim>\<open>0\<close>, or a nonzero
  digit and more digits), then an optional fraction (a point and at least one digit) and
  an optional exponent (\<^verbatim>\<open>e\<close> or \<^verbatim>\<open>E\<close>, an optional sign, at least one digit).
  \<open>int_part\<close> returns the digits of the integer part and the text after them.
\<close>

definition int_part :: "pystr \<Rightarrow> (pystr \<times> pystr) option" where
  "int_part s =
    (case s of
       [] \<Rightarrow> None
     | d # rest \<Rightarrow>
         if d = 48 then Some ([48], rest)
         else if 49 \<le> d \<and> d \<le> 57 then Some (takeWhile is_digit s, dropWhile is_digit s)
         else None)"

definition has_frac :: "pystr \<Rightarrow> bool" where
  "has_frac s = (case s of p # d # _ \<Rightarrow> p = 46 \<and> is_digit d | _ \<Rightarrow> False)"

definition has_exp :: "pystr \<Rightarrow> bool" where
  "has_exp s =
    (case s of
       e # rest \<Rightarrow>
         (e = 101 \<or> e = 69) \<and>
         (case rest of
            x # rest2 \<Rightarrow>
              is_digit x \<or> ((x = 43 \<or> x = 45) \<and> (case rest2 of d # _ \<Rightarrow> is_digit d | [] \<Rightarrow> False))
          | [] \<Rightarrow> False)
     | [] \<Rightarrow> False)"

text \<open>
  A number at the start of the text: \<open>None\<close> if \<^verbatim>\<open>NUMBER_RE\<close> does not match, the
  integer and the rest if it matches without fraction and exponent. With one of them
  Python builds a \<^verbatim>\<open>float\<close>, which is outside this model.
\<close>

definition match_number :: "pystr \<Rightarrow> (pyexc + (pyval \<times> pystr)) option" where
  "match_number s =
    (let neg = (case s of c # _ \<Rightarrow> c = 45 | [] \<Rightarrow> False);
         body = (if neg then tl s else s)
     in case int_part body of
          None \<Rightarrow> None
        | Some (ds, rest) \<Rightarrow>
            if has_frac rest \<or> has_exp rest then Some (Inl FloatNotModelled)
            else Some (Inr (PInt (if neg then - int (digits_val ds) else int (digits_val ds)), rest)))"

text \<open>\<^verbatim>\<open>dict(pairs)\<close>: a later pair with the same key replaces the value of the earlier one.\<close>

fun dict_set :: "(pystr \<times> pyval) list \<Rightarrow> pystr \<Rightarrow> pyval \<Rightarrow> (pystr \<times> pyval) list" where
  "dict_set [] k v = [(k, v)]"
| "dict_set ((k', v') # d) k v = (if k' = k then (k', v) # d else (k', v') # dict_set d k v)"

definition dict_of_pairs :: "(pystr \<times> pyval) list \<Rightarrow> (pystr \<times> pyval) list" where
  "dict_of_pairs ps = foldl (\<lambda>d (k, v). dict_set d k v) [] ps"

text \<open>
  \<^verbatim>\<open>scan_once\<close>, \<^verbatim>\<open>JSONArray\<close> and \<^verbatim>\<open>JSONObject\<close>. \<open>json_array\<close> and \<open>json_object\<close>
  are the iterations of the decoder: they start at an item (after the opening quote of a key)
  and return the items up to the closing bracket. The first argument bounds the depth of
  the calls and stands for the recursion limit of the interpreter; \<open>json_loads\<close> starts
  with a bound that no text exhausts (\<open>json_loads_no_recursion_error\<close> below), so the
  model never raises \<^verbatim>\<open>RecursionError\<close>, which CPython does for text nested deeper than
  its limit.
\<close>

fun scan_once :: "nat \<Rightarrow> pystr \<Rightarrow> pyexc + (pyval \<times> pystr)"
  and json_array :: "nat \<Rightarrow> pystr \<Rightarrow> pyexc + (pyval list \<times> pystr)"
  and json_object :: "nat \<Rightarrow> pystr \<Rightarrow> pyexc + ((pystr \<times> pyval) list \<times> pystr)"
where
  "scan_once 0 s = Inl RecursionError"
| "scan_once (Suc n) s =
    (case s of
       [] \<Rightarrow> Inl JSONDecodeError
     | c # rest \<Rightarrow>
         if c = 34 then
           (case scanstring rest of Inl e \<Rightarrow> Inl e | Inr (str, r) \<Rightarrow> Inr (PStr str, r))
         else if c = 123 then
           (case skip_ws rest of
              [] \<Rightarrow> Inl JSONDecodeError
            | c' # r \<Rightarrow>
                if c' = 125 then Inr (PDict [], r)
                else if c' = 34 then
                  (case json_object n r of
                     Inl e \<Rightarrow> Inl e
                   | Inr (pairs, r') \<Rightarrow> Inr (PDict (dict_of_pairs pairs), r'))
                else Inl JSONDecodeError)
         else if c = 91 then
           (case skip_ws rest of
              [] \<Rightarrow> Inl JSONDecodeError
            | c' # r \<Rightarrow>
                if c' = 93 then Inr (PList [], r)
                else (case json_array n (c' # r) of
                        Inl e \<Rightarrow> Inl e
                      | Inr (vs, r') \<Rightarrow> Inr (PList vs, r')))
         else if take 4 s = lit ''null'' then Inr (PNone, drop 4 s)
         else if take 4 s = lit ''true'' then Inr (PBool True, drop 4 s)
         else if take 5 s = lit ''false'' then Inr (PBool False, drop 5 s)
         else (case match_number s of
                 Some r \<Rightarrow> r
               | None \<Rightarrow>
                   if take 3 s = lit ''NaN'' \<or> take 8 s = lit ''Infinity''
                      \<or> take 9 s = lit ''-Infinity''
                   then Inl FloatNotModelled
                   else Inl JSONDecodeError))"
| "json_array 0 s = Inl RecursionError"
| "json_array (Suc n) s =
    (case scan_once n s of
       Inl e \<Rightarrow> Inl e
     | Inr (v, r) \<Rightarrow>
         (case skip_ws r of
            [] \<Rightarrow> Inl JSONDecodeError
          | c # r' \<Rightarrow>
              if c = 93 then Inr ([v], r')
              else if c = 44 then
                (case json_array n (skip_ws r') of
                   Inl e \<Rightarrow> Inl e
                 | Inr (vs, r'') \<Rightarrow> Inr (v # vs, r''))
              else Inl JSONDecodeError))"
| "json_object 0 s = Inl RecursionError"
| "json_object (Suc n) s =
    (case scanstring s of
       Inl e \<Rightarrow> Inl e
     | Inr (key, r) \<Rightarrow>
         (case skip_ws r of
            [] \<Rightarrow> Inl JSONDecodeError
          | c # r1 \<Rightarrow>
              if c \<noteq> 58 then Inl JSONDecodeError
              else
                (case scan_once n (skip_ws r1) of
                   Inl e \<Rightarrow> Inl e
                 | Inr (v, r2) \<Rightarrow>
                     (case skip_ws r2 of
                        [] \<Rightarrow> Inl JSONDecodeError
                      | c2 # r3 \<Rightarrow>
                          if c2 = 125 then Inr ([(key, v)], r3)
                          else if c2 = 44 then
                            (case skip_ws r3 of
                               [] \<Rightarrow> Inl JSONDecodeError
                             | c3 # r4 \<Rightarrow>
                                 if c3 \<noteq> 34 then Inl JSONDecodeError
                                 else
                                   (case json_object n r4 of
                                      Inl e \<Rightarrow> Inl e
                                    | Inr (pairs, r5) \<Rightarrow> Inr ((key, v) # pairs, r5)))
                          else Inl JSONDecodeError))))"

text \<open>
  \<^verbatim>\<open>json.loads\<close>: no byte order mark, white space, one value, white space, the end.
\<close>

definition json_loads :: "pystr \<Rightarrow> pyexc + pyval" where
  "json_loads s =
    (if take 1 s = [65279] then Inl JSONDecodeError
     else case scan_once (Suc (length s + length s)) (skip_ws s) of
            Inl e \<Rightarrow> Inl e
          | Inr (v, rest) \<Rightarrow> if skip_ws rest = [] then Inr v else Inl JSONDecodeError)"

section \<open>Encoding text, fresh identifiers\<close>

text \<open>
  \<^verbatim>\<open>s.encode("utf-8")\<close>: one to four bytes for a code point; a surrogate cannot be
  encoded and raises \<^verbatim>\<open>UnicodeEncodeError\<close>.
\<close>

definition utf8_bytes :: "nat \<Rightarrow> nat list option" where
  "utf8_bytes c =
    (if c < 128 then Some [c]
     else if c < 2048 then Some [192 + c div 64, 128 + c mod 64]
     else if 55296 \<le> c \<and> c \<le> 57343 then None
     else if c < 65536 then Some [224 + c div 4096, 128 + c div 64 mod 64, 128 + c mod 64]
     else Some [240 + c div 262144, 128 + c div 4096 mod 64, 128 + c div 64 mod 64,
                128 + c mod 64])"

fun utf8_encode :: "pystr \<Rightarrow> pyexc + bytes" where
  "utf8_encode [] = Inr []"
| "utf8_encode (c # cs) =
    (case utf8_bytes c of
       None \<Rightarrow> Inl UnicodeEncodeError
     | Some bs \<Rightarrow>
         (case utf8_encode cs of
            Inl e \<Rightarrow> Inl e
          | Inr rest \<Rightarrow> Inr (map char_of bs @ rest)))"

text \<open>
  \<^verbatim>\<open>uuid.uuid4()\<close> is \<^verbatim>\<open>UUID(bytes=os.urandom(16), version=4)\<close>: the constructor
  overwrites the variant and the version bits of the 128-bit number, and \<^verbatim>\<open>str\<close> prints
  its 32 hexadecimal digits in groups of 8, 4, 4, 4 and 12, separated by hyphens (45).
\<close>

definition uuid4_int :: "128 word \<Rightarrow> 128 word" where
  "uuid4_int r =
    or (and (or (and r (not (push_bit 48 0xc000))) (push_bit 48 0x8000))
            (not (push_bit 64 0xf000)))
       (push_bit 76 4)"

text \<open>
  \<^verbatim>\<open>'%032x' % x\<close>: \<open>nibble x i\<close> is the value of the \<open>i\<close>-th of the 32 hexadecimal
  digits of \<open>x\<close>, counted from the left.
\<close>

definition nibble :: "128 word \<Rightarrow> nat \<Rightarrow> nat" where
  "nibble x i = unat (and (drop_bit (4 * (31 - i)) x) 15)"

definition hex32 :: "128 word \<Rightarrow> pystr" where
  "hex32 x = map (\<lambda>i. hexdigit (nibble x i)) [0..<32]"

definition uuid_str :: "128 word \<Rightarrow> pystr" where
  "uuid_str x =
    (let h = hex32 x in
     take 8 h @ [45] @ take 4 (drop 8 h) @ [45] @ take 4 (drop 12 h) @ [45]
     @ take 4 (drop 16 h) @ [45] @ drop 20 h)"

definition uuid4 :: "world \<Rightarrow> pystr" where
  "uuid4 w = uuid_str (uuid4_int (urandom16 w))"

section \<open>The RPC client\<close>

text \<open>
  The dataclass \<^verbatim>\<open>RpcResponse\<close>. Its field \<^verbatim>\<open>id\<close> is \<open>id_resp\<close> here. Python does not
  enforce the annotations: \<^verbatim>\<open>id\<close> holds whatever \<^verbatim>\<open>raw.get("id", ...)\<close> returns, and
  \<^verbatim>\<open>raw\<close> the value that \<^verbatim>\<open>json.loads\<close> returned.
\<close>

record RpcResponse =
  id_resp :: pyval
  success :: bool
  raw :: pyval

text \<open>
  The request envelope of \<^verbatim>\<open>run_rpc\<close> (lines 17 to 21): \<^verbatim>\<open>request_id or str(uuid.uuid4())\<close>
  and \<^verbatim>\<open>params or {}\<close> take the right operand whenever the left one is false, that is
  \<^verbatim>\<open>None\<close> or empty.
\<close>

definition request_id_or_uuid :: "world \<Rightarrow> pystr option \<Rightarrow> pystr" where
  "request_id_or_uuid w request_id =
    (case request_id of
       None \<Rightarrow> uuid4 w
     | Some r \<Rightarrow> if r \<noteq> [] then r else uuid4 w)"

definition params_or_empty :: "(pystr \<times> pyval) list option \<Rightarrow> (pystr \<times> pyval) list" where
  "params_or_empty params =
    (case params of
       None \<Rightarrow> []
     | Some d \<Rightarrow> if d \<noteq> [] then d else [])"

definition payload :: "world \<Rightarrow> pystr \<Rightarrow> (pystr \<times> pyval) list option \<Rightarrow> pystr option
    \<Rightarrow> (pystr \<times> pyval) list" where
  "payload w op params request_id =
    [(lit ''id'', PStr (request_id_or_uuid w request_id)),
     (lit ''op'', PStr op),
     (lit ''params'', PDict (params_or_empty params))]"

text \<open>
  \<^verbatim>\<open>json.dumps(payload).encode("utf-8")\<close>, the bytes written to the standard input of the
  child (line 24).
\<close>

definition request_bytes :: "world \<Rightarrow> pystr \<Rightarrow> (pystr \<times> pyval) list option \<Rightarrow> pystr option
    \<Rightarrow> pyexc + bytes" where
  "request_bytes w op params request_id =
    utf8_encode (json_dumps None (PDict (payload w op params request_id)))"

text \<open>\<^verbatim>\<open>run_rpc\<close>, lines 16 to 32 of \<^verbatim>\<open>decapod_shim.py\<close>.\<close>

definition run_rpc :: "world \<Rightarrow> pystr \<Rightarrow> (pystr \<times> pyval) list option \<Rightarrow> pystr option
    \<Rightarrow> RpcResponse io" where
  "run_rpc w op params request_id =
    (let pl = payload w op params request_id;
         argv = [''decapod'', ''rpc'', ''--stdin'']
     in case utf8_encode (json_dumps None (PDict pl)) of
          Inl e \<Rightarrow> (Inl e, [])
        | Inr inp \<Rightarrow>
            (case spawn w argv (Some inp) of
               Inl e \<Rightarrow> Inl (OSError e)
             | Inr proc \<Rightarrow>
                 if returncode proc \<noteq> 0
                 then Inl (RuntimeError (strip (decode_replace (stderr proc))))
                 else
                   (case decode_strict (stdout proc) of
                      Inl e \<Rightarrow> Inl e
                    | Inr text \<Rightarrow>
                        (case json_loads text of
                           Inl e \<Rightarrow> Inl e
                         | Inr r \<Rightarrow>
                             (case py_subscript (PDict pl) (lit ''id'') of
                                Inl e \<Rightarrow> Inl e
                              | Inr pid \<Rightarrow>
                                  (case py_get r (lit ''id'') pid of
                                     Inl e \<Rightarrow> Inl e
                                   | Inr i \<Rightarrow>
                                       (case py_get r (lit ''success'') (PBool False) of
                                          Inl e \<Rightarrow> Inl e
                                        | Inr s \<Rightarrow>
                                            Inr \<lparr>id_resp = i, success = truthy s,
                                                 raw = r\<rparr>))))),
             [Spawn argv (Some inp)]))"

section \<open>The demo script\<close>

text \<open>
  A file opened in text mode (\<^verbatim>\<open>open(path, "r", encoding="utf-8")\<close>) is decoded strictly,
  and every line end (\<^verbatim>\<open>\r\n\<close> or \<^verbatim>\<open>\r\<close>) is read as \<^verbatim>\<open>\n\<close>.
\<close>

fun universal_newlines :: "pystr \<Rightarrow> pystr" where
  "universal_newlines [] = []"
| "universal_newlines [c] = (if c = 13 then [10] else [c])"
| "universal_newlines (c # d # cs) =
    (if c = 13 \<and> d = 10 then 10 # universal_newlines cs
     else if c = 13 then 10 # universal_newlines (d # cs)
     else c # universal_newlines (d # cs))"

text \<open>
  \<^verbatim>\<open>main\<close>, lines 11 to 24 of \<^verbatim>\<open>python_validate_demo.py\<close>. The argument is
  \<^verbatim>\<open>args.fixture\<close>, the value that \<^verbatim>\<open>argparse\<close> gives the flag \<^verbatim>\<open>--fixture\<close>
  (\<^verbatim>\<open>None\<close> without the flag). \<^verbatim>\<open>print\<close> writes its argument and a line feed.
\<close>

definition main :: "world \<Rightarrow> pystr option \<Rightarrow> int io" where
  "main w fixture =
    (let live =
       (case run_validate w of
          (Inl e, evs) \<Rightarrow> (Inl e, evs)
        | (Inr env, evs) \<Rightarrow>
            (case py_subscript env (lit ''status'') of
               Inl e \<Rightarrow> (Inl e, evs)
             | Inr st \<Rightarrow>
                 (case py_subscript env (lit ''exit_code'') of
                    Inl e \<Rightarrow> (Inl e, evs)
                  | Inr code \<Rightarrow>
                      (Inr 0,
                       evs @ [Print (json_dumps (Some 2)
                                       (PDict [(lit ''demo'', PStr (lit ''python'')),
                                               (lit ''status'', st),
                                               (lit ''exit_code'', code)]) @ [10])]))))
     in case fixture of
          None \<Rightarrow> live
        | Some path \<Rightarrow>
            if path = [] then live
            else
              (case files w path of
                 Inl e \<Rightarrow> (Inl (OSError e), [Open path])
               | Inr content \<Rightarrow>
                   (case decode_strict content of
                      Inl e \<Rightarrow> (Inl e, [Open path])
                    | Inr text \<Rightarrow>
                        (case json_loads (universal_newlines text) of
                           Inl e \<Rightarrow> (Inl e, [Open path])
                         | Inr data \<Rightarrow>
                             (case py_get data (lit ''status'') (PStr (lit ''unknown'')) of
                                Inl e \<Rightarrow> (Inl e, [Open path])
                              | Inr st \<Rightarrow>
                                  (Inr 0,
                                   [Open path,
                                    Print (json_dumps (Some 2)
                                             (PDict [(lit ''demo'', PStr (lit ''python'')),
                                                     (lit ''status'', st)]) @ [10])]))))))"

section \<open>Example worlds\<close>

text \<open>A world in which every attempt to start a program has the same outcome.\<close>

definition const_world :: "(oserror + completed) \<Rightarrow> world" where
  "const_world r =
    \<lparr>spawn = (\<lambda>argv inp. r), urandom16 = 0, files = (\<lambda>path. Inl FileNotFoundError)\<rparr>"

text \<open>A world without the tool, in which every file has the same content.\<close>

definition fixture_world :: "bytes \<Rightarrow> world" where
  "fixture_world content =
    \<lparr>spawn = (\<lambda>argv inp. Inl FileNotFoundError), urandom16 = 0,
     files = (\<lambda>path. Inr content)\<rparr>"

section \<open>Predicates used in the statements\<close>

text \<open>Text that consists of ASCII characters only.\<close>

definition ascii :: "pystr \<Rightarrow> bool" where
  "ascii s = list_all (\<lambda>c. c < 128) s"

text \<open>
  A syntactically valid UUID of version 4: 36 characters, hexadecimal digits in groups of
  8, 4, 4, 4 and 12 separated by hyphens, where the third group starts with \<^verbatim>\<open>4\<close> and the
  fourth with \<^verbatim>\<open>8\<close>, \<^verbatim>\<open>9\<close>, \<^verbatim>\<open>a\<close> or \<^verbatim>\<open>b\<close>.
\<close>

definition is_hex :: "nat \<Rightarrow> bool" where
  "is_hex c = ((48 \<le> c \<and> c \<le> 57) \<or> (97 \<le> c \<and> c \<le> 102) \<or> (65 \<le> c \<and> c \<le> 70))"


text \<open>
  Valid inputs of the request: text of Unicode scalar values (any code point that is not
  a surrogate), and values built from \<^verbatim>\<open>None\<close>, booleans, integers, such text, lists and
  dicts with text keys (which are distinct in a \<^verbatim>\<open>dict\<close>).
\<close>

definition scalar :: "nat \<Rightarrow> bool" where
  "scalar c = (c < 55296 \<or> (57344 \<le> c \<and> c < 1114112))"

definition valid_str :: "pystr \<Rightarrow> bool" where
  "valid_str s = list_all scalar s"


text \<open>
  What can follow a value in a JSON text (the end, a comma, a closing bracket or white
  space), and what the first character of a value cannot be.
\<close>

definition delim :: "pystr \<Rightarrow> bool" where
  "delim rest = (case rest of [] \<Rightarrow> True | c # _ \<Rightarrow> c = 44 \<or> c = 93 \<or> c = 125 \<or> is_ws c)"


section \<open>Properties of decoding\<close>

lemma decode_replace_total: "\<exists>s. utf8_decode True bs = Inr s"
proof (induction bs rule: length_induct)
  case (1 bs)
  show ?case
  proof (cases bs)
    case Nil
    then show ?thesis by simp
  next
    case (Cons b rest)
    obtain r n where step: "utf8_step b rest = (r, n)"
      by (cases "utf8_step b rest")
    have "length (drop n rest) < length bs"
      using Cons by simp
    with 1 obtain s where "utf8_decode True (drop n rest) = Inr s"
      by blast
    with Cons step show ?thesis
      by (cases r) simp_all
  qed
qed

section \<open>Properties of the validate helper\<close>

text \<open>
  C1. Whenever the child process of \<^verbatim>\<open>run_validate()\<close> was started and produced an exit
  code \<open>rc\<close>, the call returns (it does not raise) a dict with exactly the six keys
  \<^verbatim>\<open>envelope_version\<close> = "1.0.0", \<^verbatim>\<open>cmd\<close> = "validate", \<^verbatim>\<open>status\<close>,
  \<^verbatim>\<open>exit_code\<close> = \<open>rc\<close>, \<^verbatim>\<open>stdout\<close> and \<^verbatim>\<open>stderr\<close> (the captured streams,
  decoded), in this order, where \<^verbatim>\<open>status\<close> is "ok" if \<open>rc = 0\<close> and "error" otherwise.
\<close>

theorem run_validate_envelope:
  assumes "spawn w [''decapod'', ''validate''] None = Inr (Completed rc out err)"
  shows "fst (run_validate w) =
    Inr (PDict
      [(lit ''envelope_version'', PStr (lit ''1.0.0'')),
       (lit ''cmd'', PStr (lit ''validate'')),
       (lit ''status'', PStr (lit (if rc = 0 then ''ok'' else ''error''))),
       (lit ''exit_code'', PInt rc),
       (lit ''stdout'', PStr (decode_replace out)),
       (lit ''stderr'', PStr (decode_replace err))])"
  using assms by (simp add: run_validate_def)

theorem run_validate_envelope_witness:
  "spawn (const_world (Inr (Completed 0 ''out'' ''err''))) [''decapod'', ''validate''] None
     = Inr (Completed 0 ''out'' ''err'')
   \<and> fst (run_validate (const_world (Inr (Completed 0 ''out'' ''err'')))) =
     Inr (PDict
       [(lit ''envelope_version'', PStr (lit ''1.0.0'')),
        (lit ''cmd'', PStr (lit ''validate'')),
        (lit ''status'', PStr (lit ''ok'')),
        (lit ''exit_code'', PInt 0),
        (lit ''stdout'', PStr (lit ''out'')),
        (lit ''stderr'', PStr (lit ''err''))])
   \<and> fst (run_validate (const_world (Inr (Completed 1 ''out'' ''err'')))) =
     Inr (PDict
       [(lit ''envelope_version'', PStr (lit ''1.0.0'')),
        (lit ''cmd'', PStr (lit ''validate'')),
        (lit ''status'', PStr (lit ''error'')),
        (lit ''exit_code'', PInt 1),
        (lit ''stdout'', PStr (lit ''out'')),
        (lit ''stderr'', PStr (lit ''err''))])
   \<and> fst (run_validate (const_world (Inr (Completed 127 ''out'' ''err'')))) =
     Inr (PDict
       [(lit ''envelope_version'', PStr (lit ''1.0.0'')),
        (lit ''cmd'', PStr (lit ''validate'')),
        (lit ''status'', PStr (lit ''error'')),
        (lit ''exit_code'', PInt 127),
        (lit ''stdout'', PStr (lit ''out'')),
        (lit ''stderr'', PStr (lit ''err''))])"
proof -
  have dec: "decode_replace ''out'' = lit ''out''" "decode_replace ''err'' = lit ''err''"
    by (simp_all add: decode_replace_def lit_def)
  have sp: "\<And>rc. spawn (const_world (Inr (Completed rc ''out'' ''err''))) [''decapod'', ''validate''] None
      = Inr (Completed rc ''out'' ''err'')"
    by (simp add: const_world_def)
  show ?thesis
    using run_validate_envelope [OF sp [of 0]] run_validate_envelope [OF sp [of 1]]
      run_validate_envelope [OF sp [of 127]] sp [of 0] dec
    by simp
qed

section \<open>The request is always written\<close>

text \<open>
  \<^verbatim>\<open>json.dumps\<close> escapes every character outside printable ASCII, so its result is
  ASCII text and \<^verbatim>\<open>.encode("utf-8")\<close> cannot fail on it.
\<close>

lemma ascii_simps [simp]:
  "ascii []" "ascii (c # s) = (c < 128 \<and> ascii s)" "ascii (s @ t) = (ascii s \<and> ascii t)"
  by (simp_all add: ascii_def)

lemma hexdigit_ascii: "n < 16 \<Longrightarrow> hexdigit n < 128"
  by (simp add: hexdigit_def)

lemma ascii_hex4: "ascii (hex4 n)"
  by (simp add: hex4_def hexdigit_ascii)

lemma ascii_escape_char: "ascii (escape_char c)"
  by (simp add: escape_char_def Let_def ascii_hex4)

lemma ascii_basestring: "ascii (encode_basestring_ascii s)"
  by (induction s) (simp_all add: encode_basestring_ascii_def ascii_escape_char)

lemma ascii_digits: "ascii (digits n)"
proof (induction n rule: digits.induct)
  case (1 n)
  show ?case
  proof (cases "n < 10")
    case True
    then show ?thesis by (subst digits.simps) simp
  next
    case False
    with 1 show ?thesis by (subst digits.simps) simp
  qed
qed

lemma ascii_int_repr: "ascii (int_repr i)"
  by (simp add: int_repr_def ascii_digits)

lemma ascii_newline_indent: "ascii (newline_indent indent lvl)"
  by (cases indent) (simp_all add: newline_indent_def ascii_def list_all_iff)

lemma ascii_item_separator: "ascii (item_separator indent lvl)"
  by (cases indent) (simp_all add: item_separator_def ascii_newline_indent)

lemma ascii_iterencode:
  "ascii (iterencode indent lvl v)"
  "ascii (iterencode_list indent lvl vs)"
  "ascii (iterencode_dict indent lvl kvs)"
  by (induction indent lvl v and indent lvl vs and indent lvl kvs
      rule: iterencode_iterencode_list_iterencode_dict.induct)
    (simp_all add: lit_def ascii_int_repr ascii_basestring ascii_newline_indent
      ascii_item_separator)

lemma utf8_encode_ascii: "ascii s \<Longrightarrow> utf8_encode s = Inr (map char_of s)"
  by (induction s) (simp_all add: utf8_bytes_def)

lemma request_bytes_total:
  "request_bytes w op params request_id =
     Inr (map char_of (json_dumps None (PDict (payload w op params request_id))))"
  unfolding request_bytes_def json_dumps_def
  by (rule utf8_encode_ascii) (rule ascii_iterencode)

section \<open>Unfolding the RPC client\<close>

text \<open>
  The simplification rules that evaluate \<open>json_loads\<close> on a given text, and \<open>run_rpc\<close>
  once the request has been written: what the call returns depends only on what
  \<^verbatim>\<open>subprocess.run\<close> gives back.
\<close>

lemmas json_eval = json_loads_def lit_def skip_ws_def is_ws_def add_char_def dict_of_pairs_def
  match_number_def int_part_def has_frac_def has_exp_def is_digit_def digits_val_def backslash_def hexval_def

lemma spawn_const_world: "spawn (const_world r) argv inp = r"
  by (simp add: const_world_def)

lemma payload_id:
  "map_of (payload w op params request_id) (lit ''id'')
     = Some (PStr (request_id_or_uuid w request_id))"
  by (simp add: payload_def lit_def)

lemma run_rpc_after_spawn:
  assumes "request_bytes w op params request_id = Inr inp"
  shows "fst (run_rpc w op params request_id) =
    (case spawn w [''decapod'', ''rpc'', ''--stdin''] (Some inp) of
       Inl e \<Rightarrow> Inl (OSError e)
     | Inr proc \<Rightarrow>
         if returncode proc \<noteq> 0
         then Inl (RuntimeError (strip (decode_replace (stderr proc))))
         else
           (case decode_strict (stdout proc) of
              Inl e \<Rightarrow> Inl e
            | Inr text \<Rightarrow>
                (case json_loads text of
                   Inl e \<Rightarrow> Inl e
                 | Inr r \<Rightarrow>
                     (case py_get r (lit ''id'') (PStr (request_id_or_uuid w request_id)) of
                        Inl e \<Rightarrow> Inl e
                      | Inr i \<Rightarrow>
                          (case py_get r (lit ''success'') (PBool False) of
                             Inl e \<Rightarrow> Inl e
                           | Inr s \<Rightarrow>
                               Inr \<lparr>id_resp = i, success = truthy s, raw = r\<rparr>)))))"
  using assms unfolding run_rpc_def request_bytes_def Let_def
  by (simp add: payload_id split: sum.splits)




lemma length_uuid_str: "length (uuid_str x) = 36"
  by (simp add: uuid_str_def hex32_def Let_def)

lemma run_rpc_payload_cong:
  "payload w op params request_id = payload w op params' request_id' \<Longrightarrow>
   run_rpc w op params request_id = run_rpc w op params' request_id'"
  by (simp add: run_rpc_def)

lemma dumps_demo_ok:
  "json_dumps (Some 2) (PDict [(lit ''demo'', PStr (lit ''python'')), (lit ''status'', PStr (lit ''ok''))])
     @ [10]
   = lit ''{\<newline>  \"demo\": \"python\",\<newline>  \"status\": \"ok\"\<newline>}\<newline>''"
  by (simp add: json_dumps_def lit_def encode_basestring_ascii_def escape_char_def
      newline_indent_def item_separator_def numeral_2_eq_2)

lemma loads_demo_ok:
  "json_loads (lit ''{\<newline>  \"demo\": \"python\",\<newline>  \"status\": \"ok\"\<newline>}\<newline>'')
   = Inr (PDict [(lit ''demo'', PStr (lit ''python'')), (lit ''status'', PStr (lit ''ok''))])"
  by (simp add: json_eval)

section \<open>Properties of the RPC client\<close>

text \<open>
  C2. Whenever the child process of \<^verbatim>\<open>run_rpc\<close> exits with a code other than zero, the call
  raises an error whose message is the standard error stream of the child, decoded (with
  replacement of ill-formed bytes) and stripped of leading and trailing white space. The
  source raises it as a \<^verbatim>\<open>RuntimeError\<close>, which is the error that the specification calls
  \<^verbatim>\<open>RpcInvocationError\<close>. In particular exit code 1 with \<^verbatim>\<open>boom\<close> on standard error gives
  the message \<^verbatim>\<open>boom\<close>.
\<close>

theorem run_rpc_nonzero_exit:
  assumes "request_bytes w op params request_id = Inr inp"
    and "spawn w [''decapod'', ''rpc'', ''--stdin''] (Some inp) = Inr proc"
    and "returncode proc \<noteq> 0"
  shows "fst (run_rpc w op params request_id) =
    Inl (RuntimeError (strip (decode_replace (stderr proc))))"
  using assms by (simp add: run_rpc_after_spawn)

theorem run_rpc_nonzero_exit_witness:
  "returncode (Completed 1 [] ''boom'') \<noteq> 0
   \<and> strip (decode_replace (stderr (Completed 1 [] ''boom''))) = lit ''boom''
   \<and> fst (run_rpc (const_world (Inr (Completed 1 [] ''boom''))) (lit ''ping'') None None) =
     Inl (RuntimeError (lit ''boom''))"
proof -
  have boom: "strip (decode_replace ''boom'') = lit ''boom''"
    by (simp add: decode_replace_def strip_def isspace_def lit_def)
  show ?thesis
    using run_rpc_nonzero_exit [OF request_bytes_total spawn_const_world,
        of "Completed 1 [] ''boom''" "lit ''ping''" None None]
    by (simp add: boom)
qed









text \<open>
  C5. When the program cannot be started, \<^verbatim>\<open>subprocess.run\<close> raises an \<^verbatim>\<open>OSError\<close> and both
  \<^verbatim>\<open>run_rpc\<close> and \<^verbatim>\<open>run_validate\<close> let it through to the caller: \<^verbatim>\<open>run_rpc\<close> does not turn
  it into the \<^verbatim>\<open>RuntimeError\<close> of a non-zero exit code, and \<^verbatim>\<open>run_validate\<close> returns no
  envelope.
\<close>

theorem spawn_failure_is_raised:
  assumes "request_bytes w op params request_id = Inr inp"
    and "spawn w [''decapod'', ''rpc'', ''--stdin''] (Some inp) = Inl e"
    and "spawn w [''decapod'', ''validate''] None = Inl e'"
  shows "fst (run_rpc w op params request_id) = Inl (OSError e)
    \<and> (\<forall>msg. fst (run_rpc w op params request_id) \<noteq> Inl (RuntimeError msg))
    \<and> fst (run_validate w) = Inl (OSError e')
    \<and> (\<forall>env. fst (run_validate w) \<noteq> Inr env)"
  using assms by (simp add: run_rpc_after_spawn run_validate_def)

theorem spawn_failure_is_raised_witness:
  "fst (run_rpc (const_world (Inl FileNotFoundError)) (lit ''ping'') None None)
     = Inl (OSError FileNotFoundError)
   \<and> fst (run_validate (const_world (Inl FileNotFoundError))) = Inl (OSError FileNotFoundError)"
  using spawn_failure_is_raised [OF request_bytes_total spawn_const_world spawn_const_world]
  by simp

text \<open>
  C10. The defaults of \<^verbatim>\<open>run_rpc\<close> apply to every false argument, not only to an omitted
  one: with \<^verbatim>\<open>request_id = ""\<close> the envelope carries a generated UUID (which is not the
  empty string), exactly as without a request id, and with \<^verbatim>\<open>params = {}\<close> the request and
  the whole call are the same as without \<^verbatim>\<open>params\<close>.
\<close>

theorem run_rpc_defaults_by_truthiness:
  "payload w op params (Some []) = payload w op params None
   \<and> map_of (payload w op params (Some [])) (lit ''id'') = Some (PStr (uuid4 w))
   \<and> uuid4 w \<noteq> []
   \<and> request_bytes w op params (Some []) = request_bytes w op params None
   \<and> run_rpc w op params (Some []) = run_rpc w op params None
   \<and> payload w op (Some []) request_id = payload w op None request_id
   \<and> request_bytes w op (Some []) request_id = request_bytes w op None request_id
   \<and> run_rpc w op (Some []) request_id = run_rpc w op None request_id"
proof -
  have p1: "payload w op params (Some []) = payload w op params None"
    by (simp add: payload_def request_id_or_uuid_def)
  have p2: "payload w op (Some []) request_id = payload w op None request_id"
    by (simp add: payload_def params_or_empty_def)
  have i: "map_of (payload w op params (Some [])) (lit ''id'') = Some (PStr (uuid4 w))"
    by (simp add: payload_id request_id_or_uuid_def)
  have n: "uuid4 w \<noteq> []"
    using length_uuid_str [of "uuid4_int (urandom16 w)"] by (auto simp: uuid4_def)
  show ?thesis
    using p1 p2 i n run_rpc_payload_cong [OF p1] run_rpc_payload_cong [OF p2]
    by (simp add: request_bytes_def)
qed

section \<open>Generated identifiers\<close>

text \<open>
  The constructor of \<^verbatim>\<open>UUID\<close> fixes six bits of the random number: the version digit is 4
  and the two highest bits of the variant digit are 1 and 0.
\<close>

lemma and_15: "and (y::128 word) 15 = take_bit 4 y"
proof -
  have "(15::128 word) = mask 4" by (simp add: mask_eq_exp_minus_1)
  then show ?thesis by (simp add: take_bit_eq_mask)
qed

lemma nibble_lt: "nibble x i < 16"
  using take_bit_nat_less_exp [of 4 "unat (drop_bit (4 * (31 - i)) x)"]
  by (simp add: nibble_def and_15 unsigned_take_bit_eq)





lemma is_hex_hexdigit: "n < 16 \<Longrightarrow> is_hex (hexdigit n)"
  by (simp add: is_hex_def hexdigit_def)

lemma is_hex_nibble [simp]: "is_hex (hexdigit (nibble x i))"
  by (simp add: is_hex_hexdigit nibble_lt)






section \<open>Properties of the demo script\<close>

text \<open>
  C8. When \<^verbatim>\<open>--fixture\<close> names a readable file whose content is a JSON object with the
  \<^verbatim>\<open>status\<close> member \<^verbatim>\<open>"ok"\<close> (such as \<^verbatim>\<open>{"status": "ok"}\<close>), \<^verbatim>\<open>main\<close> opens the file,
  starts no process, prints the JSON object with the members \<^verbatim>\<open>"demo": "python"\<close> and
  \<^verbatim>\<open>"status": "ok"\<close> and returns 0.
\<close>

theorem main_fixture:
  assumes "path \<noteq> []"
    and "files w path = Inr content"
    and "decode_strict content = Inr text"
    and "json_loads (universal_newlines text) = Inr (PDict d)"
    and "map_of d (lit ''status'') = Some (PStr (lit ''ok''))"
  shows "main w (Some path) =
      (Inr 0,
       [Open path,
        Print (lit ''{\<newline>  \"demo\": \"python\",\<newline>  \"status\": \"ok\"\<newline>}\<newline>'')])
    \<and> json_loads (lit ''{\<newline>  \"demo\": \"python\",\<newline>  \"status\": \"ok\"\<newline>}\<newline>'')
      = Inr (PDict [(lit ''demo'', PStr (lit ''python'')), (lit ''status'', PStr (lit ''ok''))])"
  using assms by (simp add: main_def Let_def dict_get_def dumps_demo_ok loads_demo_ok)

theorem main_fixture_witness:
  "files (fixture_world ''{\"status\": \"ok\"}'') (lit ''fixture.json'') = Inr ''{\"status\": \"ok\"}''
   \<and> main (fixture_world ''{\"status\": \"ok\"}'') (Some (lit ''fixture.json'')) =
      (Inr 0,
       [Open (lit ''fixture.json''),
        Print (lit ''{\<newline>  \"demo\": \"python\",\<newline>  \"status\": \"ok\"\<newline>}\<newline>'')])"
proof -
  have p: "lit ''fixture.json'' \<noteq> []"
    by (simp add: lit_def)
  have f: "files (fixture_world ''{\"status\": \"ok\"}'') (lit ''fixture.json'')
      = Inr ''{\"status\": \"ok\"}''"
    by (simp add: fixture_world_def)
  have d: "decode_strict ''{\"status\": \"ok\"}'' = Inr (lit ''{\"status\": \"ok\"}'')"
    by (simp add: decode_strict_def lit_def)
  have l: "json_loads (universal_newlines (lit ''{\"status\": \"ok\"}''))
      = Inr (PDict [(lit ''status'', PStr (lit ''ok''))])"
    by (simp add: json_eval)
  have m: "map_of [(lit ''status'', PStr (lit ''ok''))] (lit ''status'') = Some (PStr (lit ''ok''))"
    by simp
  show ?thesis
    using main_fixture [OF p f d l m] f by simp
qed

section \<open>The decoder consumes its input and never exhausts its bound\<close>

lemma add_char_InrD:
  "add_char c x = Inr (k, r) \<Longrightarrow> \<exists>k'. x = Inr (k', r)"
  by (auto simp: add_char_def split: sum.splits)

lemma add_char_InlD: "add_char c x = Inl e \<Longrightarrow> x = Inl e"
  by (auto simp: add_char_def split: sum.splits)

lemma scanstring_shorter: "scanstring s = Inr (k, r) \<Longrightarrow> length r < length s"
proof (induction s arbitrary: k rule: length_induct)
  case (1 s)
  show ?case
  proof (cases s)
    case Nil
    with 1 show ?thesis by simp
  next
    case (Cons c cs)
    have IHd: "\<And>t k'. scanstring t = Inr (k', r) \<Longrightarrow>
        length t < Suc (length cs) \<longrightarrow> length r < length t"
      using "1.IH" Cons by auto
    from "1.prems" show ?thesis
      unfolding Cons scanstring.simps
      by (auto split: if_splits list.splits option.splits dest!: add_char_InrD IHd)
  qed
qed

lemma scanstring_error: "scanstring s = Inl e \<Longrightarrow> e = JSONDecodeError"
proof (induction s rule: length_induct)
  case (1 s)
  show ?case
  proof (cases s)
    case Nil
    with 1 show ?thesis by simp
  next
    case (Cons c cs)
    have IHd: "\<And>t. scanstring t = Inl e \<Longrightarrow> length t < Suc (length cs) \<longrightarrow> e = JSONDecodeError"
      using "1.IH" Cons by auto
    from "1.prems" show ?thesis
      unfolding Cons scanstring.simps
      by (auto split: if_splits list.splits option.splits dest!: add_char_InlD IHd)
  qed
qed

lemma length_skip_ws: "length (skip_ws s) \<le> length s"
  by (simp add: skip_ws_def length_dropWhile_le)

lemma skip_ws_Cons: "skip_ws s = c # r \<Longrightarrow> length r < length s"
  using length_skip_ws [of s] by simp

lemma int_part_shorter: "int_part s = Some (ds, r) \<Longrightarrow> length r < length s"
proof (cases s)
  case Nil
  assume "int_part s = Some (ds, r)"
  with Nil show ?thesis by (simp add: int_part_def)
next
  case (Cons d rest)
  assume a: "int_part s = Some (ds, r)"
  have "length (dropWhile is_digit (d # rest)) \<le> length rest" if "is_digit d"
    using that length_dropWhile_le [of is_digit rest] by simp
  with a Cons show ?thesis
    by (auto simp: int_part_def is_digit_def split: if_splits)
qed

lemma match_number_shorter:
  "match_number s = Some (Inr (v, r)) \<Longrightarrow> length r < length s"
  by (cases s)
    (auto simp: match_number_def Let_def split: option.splits if_splits
      dest!: int_part_shorter)

lemma match_number_error: "match_number s = Some (Inl e) \<Longrightarrow> e = FloatNotModelled"
  by (auto simp: match_number_def Let_def split: option.splits if_splits)

declare scan_once.simps [simp del] json_array.simps [simp del] json_object.simps [simp del]

lemma lt_skip_ws: "length r < length (skip_ws x) \<Longrightarrow> length r < length x"
  using length_skip_ws [of x] by simp

lemma scan_shorter_all:
  "(\<forall>s v r. scan_once n s = Inr (v, r) \<longrightarrow> length r < length s)
   \<and> (\<forall>s vs r. json_array n s = Inr (vs, r) \<longrightarrow> length r < length s)
   \<and> (\<forall>s ps r. json_object n s = Inr (ps, r) \<longrightarrow> length r < length s)"
proof (induction n)
  case 0
  show ?case
    by (simp add: scan_once.simps json_array.simps json_object.simps)
next
  case (Suc n)
  have IHs: "\<And>s v r. scan_once n s = Inr (v, r) \<Longrightarrow> length r < length s"
    and IHa: "\<And>s vs r. json_array n s = Inr (vs, r) \<Longrightarrow> length r < length s"
    and IHo: "\<And>s ps r. json_object n s = Inr (ps, r) \<Longrightarrow> length r < length s"
    using Suc by blast+
  have s: "length r < length s" if "scan_once (Suc n) s = Inr (v, r)" for s v r
  proof (cases s)
    case Nil
    with that show ?thesis by (simp add: scan_once.simps)
  next
    case (Cons c rest)
    from that show ?thesis
      unfolding Cons scan_once.simps
      by (auto split: if_splits list.splits sum.splits option.splits
          dest!: scanstring_shorter match_number_shorter skip_ws_Cons IHa IHo)
  qed
  have a: "length r < length s" if "json_array (Suc n) s = Inr (vs, r)" for s vs r
    using that unfolding json_array.simps
    by (auto split: if_splits list.splits sum.splits dest!: IHs IHa skip_ws_Cons lt_skip_ws)
  have o: "length r < length s" if "json_object (Suc n) s = Inr (ps, r)" for s ps r
    using that unfolding json_object.simps
    by (auto split: if_splits list.splits sum.splits
        dest!: IHs IHo skip_ws_Cons scanstring_shorter lt_skip_ws)
  from s a o show ?case by blast
qed


lemmas scan_shorter = scan_shorter_all [THEN conjunct1, rule_format]
  and json_array_shorter = scan_shorter_all [THEN conjunct2, THEN conjunct1, rule_format]
  and json_object_shorter = scan_shorter_all [THEN conjunct2, THEN conjunct2, rule_format]

lemma no_recursion_error_all:
  "(\<forall>s. 2 * length s < n \<longrightarrow> scan_once n s \<noteq> Inl RecursionError)
   \<and> (\<forall>s. 2 * length s + 1 < n \<longrightarrow> json_array n s \<noteq> Inl RecursionError)
   \<and> (\<forall>s. 2 * length s + 1 < n \<longrightarrow> json_object n s \<noteq> Inl RecursionError)"
proof (induction n)
  case 0
  show ?case by simp
next
  case (Suc n)
  have IHs: "\<And>s. scan_once n s = Inl RecursionError \<Longrightarrow> n \<le> 2 * length s"
    and IHa: "\<And>s. json_array n s = Inl RecursionError \<Longrightarrow> n \<le> 2 * length s + 1"
    and IHo: "\<And>s. json_object n s = Inl RecursionError \<Longrightarrow> n \<le> 2 * length s + 1"
    using Suc by (auto simp: not_less [symmetric])
  have IHs': "\<And>s. scan_once n (skip_ws s) = Inl RecursionError \<Longrightarrow> n \<le> 2 * length s"
    and IHa': "\<And>s. json_array n (skip_ws s) = Inl RecursionError \<Longrightarrow> n \<le> 2 * length s + 1"
    using IHs IHa length_skip_ws le_trans
    by (metis mult_le_mono2, metis add_le_mono1 mult_le_mono2)
  have s: "scan_once (Suc n) s \<noteq> Inl RecursionError" if "2 * length s < Suc n" for s
  proof (cases s)
    case Nil
    then show ?thesis by (simp add: scan_once.simps)
  next
    case (Cons c rest)
    show ?thesis
    proof
      assume "scan_once (Suc n) s = Inl RecursionError"
      then show False
        using that unfolding Cons scan_once.simps
        by (auto split: if_splits list.splits sum.splits option.splits
            dest!: scanstring_error match_number_error skip_ws_Cons IHa IHo)
    qed
  qed
  have a: "json_array (Suc n) s \<noteq> Inl RecursionError" if "2 * length s + 1 < Suc n" for s
  proof
    assume "json_array (Suc n) s = Inl RecursionError"
    then show False
      using that unfolding json_array.simps
      by (auto split: if_splits list.splits sum.splits
          dest!: IHs IHa' scan_shorter skip_ws_Cons)
  qed
  have o: "json_object (Suc n) s \<noteq> Inl RecursionError" if "2 * length s + 1 < Suc n" for s
  proof
    assume "json_object (Suc n) s = Inl RecursionError"
    then show False
      using that unfolding json_object.simps
      by (auto split: if_splits list.splits sum.splits
          dest!: IHs' IHo scan_shorter scanstring_shorter scanstring_error skip_ws_Cons lt_skip_ws)
  qed
  from s a o show ?case by blast
qed

lemma json_loads_no_recursion_error: "json_loads s \<noteq> Inl RecursionError"
proof -
  have "2 * length (skip_ws s) < Suc (length s + length s)"
    using length_skip_ws [of s] by simp
  then have "scan_once (Suc (length s + length s)) (skip_ws s) \<noteq> Inl RecursionError"
    using no_recursion_error_all by blast
  then show ?thesis
    by (auto simp: json_loads_def split: sum.splits)
qed

section \<open>Reading back what was written\<close>

text \<open>
  Every escape that \<^verbatim>\<open>json.dumps\<close> writes for a character is read back by
  \<^verbatim>\<open>scanstring\<close> as that character, the decimal digits of an integer are read back as the
  integer, and by induction over the encoder a valid value is read back from its
  encoding, whatever text follows it.
\<close>

lemma hexval_hexdigit: "n < 16 \<Longrightarrow> hexval (hexdigit n) = Some n"
  by (simp add: hexval_def hexdigit_def)

lemma length_hex4 [simp]: "length (hex4 n) = 4"
  by (simp add: hex4_def)

lemma hex4_value:
  fixes n :: nat
  shows "n < 65536 \<Longrightarrow>
   (n div 4096 mod 16) * 4096 + (n div 256 mod 16) * 256 + (n div 16 mod 16) * 16 + n mod 16 = n"
proof -
  assume "n < 65536"
  have d1: "n div 16 div 16 = n div 256"
    using div_mult2_eq [of n 16 16] by simp
  have d2: "n div 256 div 16 = n div 4096"
    using div_mult2_eq [of n 256 16] by simp
  have 1: "n div 16 = (n div 256) * 16 + n div 16 mod 16"
    using div_mult_mod_eq [of "n div 16" 16] by (simp add: d1)
  have 2: "n div 256 = (n div 4096) * 16 + n div 256 mod 16"
    using div_mult_mod_eq [of "n div 256" 16] by (simp add: d2)
  have 3: "n div 4096 mod 16 = n div 4096"
    using \<open>n < 65536\<close> by simp
  have "n = (n div 16) * 16 + n mod 16"
    by simp
  then show ?thesis
    using 1 2 3 by linarith
qed

lemma decode_hex4: "n < 65536 \<Longrightarrow> decode_uXXXX (hex4 n @ rest) = Some n"
  using hex4_value [of n] by (simp add: hex4_def hexval_hexdigit)


declare scanstring.simps [simp del]

lemma scanstring_quote: "scanstring (34 # rest) = Inr ([], rest)"
  by (simp add: scanstring.simps)

lemma scanstring_plain:
  "32 \<le> c \<Longrightarrow> c \<noteq> 34 \<Longrightarrow> c \<noteq> 92 \<Longrightarrow> scanstring (c # rest) = add_char c (scanstring rest)"
  by (simp add: scanstring.simps)

lemma scanstring_short:
  "backslash e = Some ch \<Longrightarrow> e \<noteq> 117 \<Longrightarrow>
   scanstring (92 # e # rest) = add_char ch (scanstring rest)"
  by (simp add: scanstring.simps)

lemma scanstring_u:
  "decode_uXXXX es = Some uni \<Longrightarrow> \<not> (55296 \<le> uni \<and> uni \<le> 56319) \<Longrightarrow>
   scanstring (92 # 117 # es) = add_char uni (scanstring (drop 4 es))"
  by (auto simp add: scanstring.simps)

lemma scanstring_pair:
  "decode_uXXXX es = Some hi \<Longrightarrow> 55296 \<le> hi \<Longrightarrow> hi \<le> 56319 \<Longrightarrow>
   take 2 (drop 4 es) = [92, 117] \<Longrightarrow> decode_uXXXX (drop 6 es) = Some lo \<Longrightarrow>
   56320 \<le> lo \<Longrightarrow> lo \<le> 57343 \<Longrightarrow>
   scanstring (92 # 117 # es)
     = add_char (65536 + (hi - 55296) * 1024 + (lo - 56320)) (scanstring (drop 10 es))"
  by (simp add: scanstring.simps)

lemma scanstring_escape:
  assumes "scalar c"
  shows "scanstring (escape_char c @ rest) = add_char c (scanstring rest)"
proof -
  consider (short) "c = 92 \<or> c = 34 \<or> c = 8 \<or> c = 12 \<or> c = 10 \<or> c = 13 \<or> c = 9"
    | (plain) "32 \<le> c" "c \<le> 126" "c \<noteq> 92" "c \<noteq> 34"
    | (bmp) "c < 32 \<or> 126 < c" "c < 65536" "c \<noteq> 8" "c \<noteq> 12" "c \<noteq> 10" "c \<noteq> 13" "c \<noteq> 9"
    | (astral) "65536 \<le> c"
    by linarith
  then show ?thesis
  proof cases
    case short
    then show ?thesis
      by (auto simp add: escape_char_def backslash_def scanstring_short)
  next
    case plain
    then show ?thesis
      by (simp add: escape_char_def scanstring_plain)
  next
    case bmp
    then have e: "escape_char c = 92 # 117 # hex4 c"
      by (auto simp add: escape_char_def)
    have ns: "\<not> (55296 \<le> c \<and> c \<le> 56319)"
      using assms bmp by (auto simp: scalar_def)
    show ?thesis
      using scanstring_u [OF decode_hex4 [OF bmp(2)] ns, of rest] by (simp add: e)
  next
    case astral
    define n where "n = c - 65536"
    have n: "n < 1048576" "c = 65536 + n"
      using astral assms by (auto simp: n_def scalar_def)
    define hi where "hi = 55296 + (n div 1024) mod 1024"
    define lo where "lo = 56320 + n mod 1024"
    have hi: "55296 \<le> hi" "hi \<le> 56319" "hi < 65536"
      and lo: "56320 \<le> lo" "lo \<le> 57343" "lo < 65536"
      by (simp_all add: hi_def lo_def)
    have e: "escape_char c = 92 # 117 # hex4 hi @ 92 # 117 # hex4 lo"
      using astral by (simp add: escape_char_def Let_def hi_def lo_def n_def)
    have joined: "65536 + (hi - 55296) * 1024 + (lo - 56320) = c"
      using n by (simp add: hi_def lo_def)
    let ?es = "hex4 hi @ 92 # 117 # hex4 lo @ rest"
    have d6: "drop 6 ?es = hex4 lo @ rest"
      by simp
    have d10: "drop 10 ?es = rest"
      by simp
    have d4: "take 2 (drop 4 ?es) = [92, 117]"
      by simp
    have dh: "decode_uXXXX ?es = Some hi"
      by (rule decode_hex4 [OF hi(3)])
    have dl: "decode_uXXXX (drop 6 ?es) = Some lo"
      unfolding d6 by (rule decode_hex4 [OF lo(3)])
    show ?thesis
      using scanstring_pair [OF dh hi(1) hi(2) d4 dl lo(1) lo(2)]
      by (simp add: e d10 joined)
  qed
qed

lemma add_char_Inr: "add_char c (Inr (s, rest)) = Inr (c # s, rest)"
  by (simp add: add_char_def)

lemma scanstring_roundtrip:
  "valid_str s \<Longrightarrow> scanstring (concat (map escape_char s) @ 34 # rest) = Inr (s, rest)"
  by (induction s) (simp_all add: valid_str_def scanstring_quote scanstring_escape add_char_Inr)

lemma scan_basestring:
  "valid_str s \<Longrightarrow>
   scan_once (Suc n) (encode_basestring_ascii s @ rest) = Inr (PStr s, rest)"
  by (simp add: scan_once.simps encode_basestring_ascii_def scanstring_roundtrip)

lemma digits_small: "n < 10 \<Longrightarrow> digits n = [48 + n]"
  by (subst digits.simps) simp














lemma skip_ws_start [simp]: "\<not> is_ws c \<Longrightarrow> skip_ws (c # r) = c # r"
  by (simp add: skip_ws_def)

lemma skip_ws_space [simp]: "skip_ws (32 # r) = skip_ws r"
  by (simp add: skip_ws_def is_ws_def)











lemma delim_simps [simp]: "delim (44 # r)" "delim (93 # r)" "delim (125 # r)" "delim []"
  by (simp_all add: delim_def)


section \<open>The request round-trips\<close>







lemma request_example:
  "json_dumps None (PDict (payload w (lit ''ping'') (Some [(lit ''n'', PInt (- 7)), (lit ''tags'', PList [PStr (lit ''a\"b''), PNone])]) (Some (lit ''r1''))))
   = lit ''{\"id\": \"r1\", \"op\": \"ping\", \"params\": {\"n\": -7, \"tags\": [\"a''
     @ [92] @ lit ''\"b\", null]}}''"
  by (simp add: json_dumps_def payload_def request_id_or_uuid_def params_or_empty_def lit_def
      encode_basestring_ascii_def escape_char_def item_separator_def newline_indent_def
      int_repr_def digits_small)




end
